theory Spec2Isabelle
  imports Main
begin

section \<open>Strings and characters\<close>

text \<open>
  Field names and attribute keys are Python \<^verbatim>\<open>str\<close> values. They are modelled as
  \<^typ>\<open>string\<close>, a list of characters with code points 0 to 255; every statement below
  is about names over these code points. The character predicates are those of Python's
  \<^verbatim>\<open>re\<close> module and of \<^verbatim>\<open>str.lower\<close>, restricted to this range.
\<close>

definition code_point :: "char \<Rightarrow> nat" where
  "code_point c = of_char c"

definition newline :: char where
  "newline = CHR 0x0A"

text \<open>\<^verbatim>\<open>\d\<close>: the decimal digits; below code point 256 these are \<^verbatim>\<open>0\<close> to \<^verbatim>\<open>9\<close>.\<close>

definition is_digit :: "char \<Rightarrow> bool" where
  "is_digit c = (48 \<le> code_point c \<and> code_point c \<le> 57)"

text \<open>
  \<^verbatim>\<open>\s\<close>: Unicode white space; below code point 256 these are the code points 9 to 13,
  28 to 32, 133 and 160.
\<close>

definition is_space :: "char \<Rightarrow> bool" where
  "is_space c = (let n = code_point c in
     (9 \<le> n \<and> n \<le> 13) \<or> (28 \<le> n \<and> n \<le> 32) \<or> n = 133 \<or> n = 160)"

text \<open>
  \<^verbatim>\<open>str.lower\<close> on one character: \<^verbatim>\<open>A\<close> to \<^verbatim>\<open>Z\<close> and the upper-case letters
  of the range 192 to 222 (all but the multiplication sign 215) move up by 32.
\<close>

definition lower_char :: "char \<Rightarrow> char" where
  "lower_char c = (let n = code_point c in
     if (65 \<le> n \<and> n \<le> 90) \<or> (192 \<le> n \<and> n \<le> 222 \<and> n \<noteq> 215)
     then char_of (n + 32) else c)"

definition lower :: "string \<Rightarrow> string" where
  "lower s = map lower_char s"

text \<open>The test \<^verbatim>\<open>sub in s\<close> on strings: \<^verbatim>\<open>sub\<close> occurs in \<^verbatim>\<open>s\<close> as a contiguous run.\<close>

fun starts_with :: "string \<Rightarrow> string \<Rightarrow> bool" where
  "starts_with [] s = True"
| "starts_with (p # ps) [] = False"
| "starts_with (p # ps) (c # cs) = (p = c \<and> starts_with ps cs)"

fun str_in :: "string \<Rightarrow> string \<Rightarrow> bool" where
  "str_in sub [] = (sub = [])"
| "str_in sub (c # cs) = (starts_with sub (c # cs) \<or> str_in sub cs)"

section \<open>Regular expressions as Python's \<^verbatim>\<open>re\<close> matches them\<close>

text \<open>
  The two patterns of the module are written as syntax trees and run by a backtracking
  matcher with the semantics of \<^verbatim>\<open>re\<close>: alternatives are tried from left to right,
  \<^verbatim>\<open>?\<close> and \<^verbatim>\<open>*\<close> are greedy and give back what they took when the rest of the
  pattern fails, and a group records the text it matched on the path that succeeds.
\<close>

datatype citem =
    Ch char           \<comment> \<open>one character of a class\<close>
  | Rng char char     \<comment> \<open>a range \<^verbatim>\<open>a-b\<close> of a class\<close>
  | Dig               \<comment> \<open>\<^verbatim>\<open>\d\<close>\<close>
  | Spc               \<comment> \<open>\<^verbatim>\<open>\s\<close>\<close>

datatype regex =
    Eps                 \<comment> \<open>the empty pattern\<close>
  | Lit char            \<comment> \<open>a literal character\<close>
  | Dot                 \<comment> \<open>\<^verbatim>\<open>.\<close>: any character but a newline\<close>
  | Cls "citem list"    \<comment> \<open>\<^verbatim>\<open>[...]\<close>, and \<^verbatim>\<open>\d\<close> as \<open>Cls [Dig]\<close>\<close>
  | Seq regex regex
  | Alt regex regex     \<comment> \<open>\<^verbatim>\<open>a|b\<close>\<close>
  | Opt regex           \<comment> \<open>\<^verbatim>\<open>a?\<close>\<close>
  | StarDot             \<comment> \<open>\<^verbatim>\<open>.*\<close>\<close>
  | Grp nat regex       \<comment> \<open>the capturing group of that number\<close>

fun in_item :: "citem \<Rightarrow> char \<Rightarrow> bool" where
  "in_item (Ch a) c = (c = a)"
| "in_item (Rng a b) c = (code_point a \<le> code_point c \<and> code_point c \<le> code_point b)"
| "in_item Dig c = is_digit c"
| "in_item Spc c = is_space c"

definition in_class :: "citem list \<Rightarrow> char \<Rightarrow> bool" where
  "in_class items c = list_ex (\<lambda>i. in_item i c) items"

text \<open>
  A literal under \<^verbatim>\<open>re.IGNORECASE\<close> (the flag \<open>ic\<close>) matches the characters with the
  same lower case; without the flag it matches itself only.
\<close>

definition lit_eq :: "bool \<Rightarrow> char \<Rightarrow> char \<Rightarrow> bool" where
  "lit_eq ic l c = (if ic then lower_char c = lower_char l else c = l)"

type_synonym groups = "nat \<rightharpoonup> string"

text \<open>
  \<open>rmatch ic r s g k\<close> matches \<open>r\<close> at the front of \<open>s\<close> with the groups \<open>g\<close> recorded so
  far and hands what is left to the continuation \<open>k\<close>, the rest of the pattern; \<open>None\<close> is
  a failure, on which the caller tries its next choice.
\<close>

fun rmatch :: "bool \<Rightarrow> regex \<Rightarrow> string \<Rightarrow> groups \<Rightarrow> (string \<Rightarrow> groups \<Rightarrow> 'r option) \<Rightarrow> 'r option" where
  "rmatch ic Eps s g k = k s g"
| "rmatch ic (Lit l) [] g k = None"
| "rmatch ic (Lit l) (c # cs) g k = (if lit_eq ic l c then k cs g else None)"
| "rmatch ic Dot [] g k = None"
| "rmatch ic Dot (c # cs) g k = (if c \<noteq> newline then k cs g else None)"
| "rmatch ic (Cls items) [] g k = None"
| "rmatch ic (Cls items) (c # cs) g k = (if in_class items c then k cs g else None)"
| "rmatch ic (Seq a b) s g k = rmatch ic a s g (\<lambda>s' g'. rmatch ic b s' g' k)"
| "rmatch ic (Alt a b) s g k =
     (case rmatch ic a s g k of Some r \<Rightarrow> Some r | None \<Rightarrow> rmatch ic b s g k)"
| "rmatch ic (Opt a) s g k =
     (case rmatch ic a s g k of Some r \<Rightarrow> Some r | None \<Rightarrow> k s g)"
| "rmatch ic StarDot [] g k = k [] g"
| "rmatch ic StarDot (c # cs) g k =
     (if c \<noteq> newline
      then (case rmatch ic StarDot cs g k of Some r \<Rightarrow> Some r | None \<Rightarrow> k (c # cs) g)
      else k (c # cs) g)"
| "rmatch ic (Grp n a) s g k =
     rmatch ic a s g (\<lambda>s' g'. k s' (g'(n \<mapsto> take (length s - length s') s)))"

text \<open>
  \<^verbatim>\<open>pattern.match(s)\<close>: the pattern has to match at the start of \<open>s\<close> and need not reach
  its end. The result is the match object, read through its groups, or \<open>None\<close>.
\<close>

definition re_match :: "bool \<Rightarrow> regex \<Rightarrow> string \<Rightarrow> groups option" where
  "re_match ic r s = rmatch ic r s Map.empty (\<lambda>s' g'. Some g')"

fun seqs :: "regex list \<Rightarrow> regex" where
  "seqs [] = Eps"
| "seqs (r # rs) = Seq r (seqs rs)"

definition str :: "string \<Rightarrow> regex" where
  "str s = seqs (map Lit s)"

definition digit :: regex where
  "digit = Cls [Dig]"

section \<open>The two patterns of the module\<close>

text \<open>
  The velocity pattern of \<^verbatim>\<open>getVectorVelocityFieldName\<close>:
  \<^verbatim>\<open>(.*)(vel|deformation.?rate|mean.?deformation)(.*)\<close>
\<close>

definition rgx_velocity :: regex where
  "rgx_velocity = seqs
     [Grp 1 StarDot,
      Grp 2 (Alt (str ''vel'')
            (Alt (seqs [str ''deformation'', Opt Dot, str ''rate''])
                 (seqs [str ''mean'', Opt Dot, str ''deformation'']))),
      Grp 3 StarDot]"

text \<open>
  The date pattern of \<^verbatim>\<open>checkVectorLayerTimeseries\<close> and
  \<^verbatim>\<open>extractDateValueAttributes\<close>:
  \<^verbatim>\<open>(.*)((19|20)\d{2}[\s\-\._]?[01]\d[\s\-\.]?[0123]\d)T?([012]\d[:\.]?[0-5]\d[0-5]?\d?)?(.*)\<close>
\<close>

definition rgx_date :: regex where
  "rgx_date = seqs
     [Grp 1 StarDot,
      Grp 2 (seqs
        [Grp 3 (Alt (str ''19'') (str ''20'')), digit, digit,
         Opt (Cls [Spc, Ch CHR ''-'', Ch CHR ''.'', Ch CHR ''_'']),
         Cls [Ch CHR ''0'', Ch CHR ''1''], digit,
         Opt (Cls [Spc, Ch CHR ''-'', Ch CHR ''.'']),
         Cls [Ch CHR ''0'', Ch CHR ''1'', Ch CHR ''2'', Ch CHR ''3''], digit]),
      Opt (Lit CHR ''T''),
      Opt (Grp 4 (seqs
        [Cls [Ch CHR ''0'', Ch CHR ''1'', Ch CHR ''2''], digit,
         Opt (Cls [Ch CHR '':'', Ch CHR ''.'']),
         Cls [Rng CHR ''0'' CHR ''5''], digit,
         Opt (Cls [Rng CHR ''0'' CHR ''5'']), Opt digit])),
      Grp 5 StarDot]"

text \<open>\<^verbatim>\<open>'' if p.group(n) is None else p.group(n)\<close>\<close>

definition group_or_empty :: "groups \<Rightarrow> nat \<Rightarrow> string" where
  "group_or_empty p n = (case p n of None \<Rightarrow> [] | Some s \<Rightarrow> s)"

text \<open>
  \<^verbatim>\<open>re.sub(r'[\s:\.\-_]?', '', s)\<close>: every character of the class is removed and every
  other character is kept (the empty matches of the pattern replace nothing).
\<close>

definition is_separator :: "char \<Rightarrow> bool" where
  "is_separator c =
     in_class [Spc, Ch CHR '':'', Ch CHR ''.'', Ch CHR ''-'', Ch CHR ''_''] c"

definition strip_separators :: "string \<Rightarrow> string" where
  "strip_separators s = filter (\<lambda>c. \<not> is_separator c) s"

definition keys_uncertainty :: "string list" where
  "keys_uncertainty = [''err'', ''sigma'', ''std'']"

text \<open>\<^verbatim>\<open>any([ele in s for ele in keys_uncertainty])\<close>\<close>

definition any_uncertainty :: "string \<Rightarrow> bool" where
  "any_uncertainty s = list_ex (\<lambda>ele. str_in ele s) keys_uncertainty"

section \<open>Layers\<close>

text \<open>
  What the module reads of a layer of the host application: \<^verbatim>\<open>isValid()\<close>,
  \<^verbatim>\<open>type()\<close>, \<^verbatim>\<open>geometryType()\<close> (compared with the integers 0 and 2) and the names
  of \<^verbatim>\<open>fields()\<close> in the layer's order (the record field \<open>field_names\<close>). A layer
  argument that may be \<^verbatim>\<open>None\<close> is a \<open>layer option\<close>.
\<close>

datatype layer_type = VectorLayer | RasterLayer | OtherLayer

record layer =
  isValid :: bool
  ltype :: layer_type
  geometryType :: int
  field_names :: "string list"

datatype py_error = KeyError | ValueError | AttributeError

definition msg_invalid_layer :: string where
  "msg_invalid_layer =
     ''<span style=\"color:red;\">Invalid Layer: Please select a valid vector layer.</span>''"

definition msg_not_vector :: string where
  "msg_not_vector =
     ''<span style=\"color:red;\">This is not a vector layer: Please select a valid vector layer.</span>''"

definition msg_not_point_polygon :: string where
  "msg_not_point_polygon =
     ''<span style=\"color:red;\">Invalid Layer: Please select a valid point or polygon layer.</span>''"

definition msg_no_velocity :: string where
  "msg_no_velocity =
     ''<span style=\"color:red;\">Invalid Layer: Please select a vector layer with valid velocity field.</span>''"

definition msg_no_timeseries :: string where
  "msg_no_timeseries =
     ''<span style=\"color:red;\">Invalid Layer: Please select a vector or raster layer with valid timeseries data.''"

fun checkVectorLayer :: "layer option \<Rightarrow> bool \<times> string" where
  "checkVectorLayer None = (False, msg_invalid_layer)"
| "checkVectorLayer (Some l) =
     (if \<not> isValid l then (False, msg_invalid_layer)
      else if \<not> (ltype l = VectorLayer) then (False, msg_not_vector)
      else if geometryType l \<notin> set [0, 2] then (False, msg_not_point_polygon)
      else (True, []))"

section \<open>The velocity field\<close>

text \<open>
  The first loop of \<^verbatim>\<open>getVectorVelocityFieldName\<close>: the names that match the velocity
  pattern (with \<^verbatim>\<open>re.IGNORECASE\<close>) and contain no uncertainty keyword, in field order.
\<close>

fun velocity_matches :: "string list \<Rightarrow> string list" where
  "velocity_matches [] = []"
| "velocity_matches (name # rest) =
     (if re_match True rgx_velocity name = None then velocity_matches rest
      else if any_uncertainty name then velocity_matches rest
      else name # velocity_matches rest)"

definition velocity_field_name_options :: "string list" where
  "velocity_field_name_options = [''velocity'', ''VEL'', ''mean_velocity'', ''deformation rate'']"

text \<open>
  The inner loop \<^verbatim>\<open>for match in matches\<close>: \<open>Some match\<close> when it leaves through
  \<^verbatim>\<open>break\<close> at the first match containing the option, \<open>None\<close> when it runs to its end
  (and its \<^verbatim>\<open>else\<close> branch is taken).
\<close>

fun first_containing :: "string \<Rightarrow> string list \<Rightarrow> string option" where
  "first_containing opt [] = None"
| "first_containing opt (m # ms) = (if str_in opt m then Some m else first_containing opt ms)"

text \<open>
  The outer loop over the options, with the value of \<^verbatim>\<open>field_name\<close> so far: when the
  inner loop found a match, \<^verbatim>\<open>field_name\<close> is set and the loop goes on with the next
  option; when it found none, the \<^verbatim>\<open>else: break\<close> ends the outer loop.
\<close>

fun pick_field :: "string list \<Rightarrow> string list \<Rightarrow> string \<Rightarrow> string" where
  "pick_field [] matches field_name = field_name"
| "pick_field (opt # opts) matches field_name =
     (case first_containing opt matches of
        Some m \<Rightarrow> pick_field opts matches m
      | None \<Rightarrow> field_name)"

definition getVectorVelocityFieldName :: "layer \<Rightarrow> string option \<times> string" where
  "getVectorVelocityFieldName l =
     (let matches = velocity_matches (field_names l);
          field_name =
            (if matches = [] then None
             else if length matches > 1
               then Some (pick_field velocity_field_name_options matches (matches ! 0))
             else Some (matches ! 0));
          message = (if field_name = None then msg_no_velocity else [])
      in (field_name, message))"

section \<open>The time series check\<close>

text \<open>
  The loop of \<^verbatim>\<open>checkVectorLayerTimeseries\<close> over the field names: \<open>True\<close> when it
  leaves through \<^verbatim>\<open>break\<close> at a name matching the date pattern (compiled with
  \<^verbatim>\<open>re.IGNORECASE\<close>), \<open>False\<close> when it runs to its end.
\<close>

fun has_date_field :: "string list \<Rightarrow> bool" where
  "has_date_field [] = False"
| "has_date_field (name # rest) =
     (if re_match True rgx_date name \<noteq> None then True else has_date_field rest)"

text \<open>
  \<^verbatim>\<open>layer.fields()\<close> on \<^verbatim>\<open>None\<close> would raise \<^verbatim>\<open>AttributeError\<close>; the function
  returns before it gets there.
\<close>

definition checkVectorLayerTimeseries :: "layer option \<Rightarrow> py_error + bool \<times> string" where
  "checkVectorLayerTimeseries lay =
     (let (status, message) = checkVectorLayer lay in
      if status = False then Inr (status, message)
      else (case lay of
              None \<Rightarrow> Inl AttributeError
            | Some l \<Rightarrow>
                if has_date_field (field_names l) then Inr (True, message)
                else Inr (False, msg_no_timeseries)))"

section \<open>Timestamps\<close>

record datetime =
  year :: nat
  month :: nat
  day :: nat
  hour :: nat
  minute :: nat
  second :: nat

text \<open>The table \<^verbatim>\<open>d_dt_fmt\<close> from the length of the digit string to the format.\<close>

definition d_dt_fmt :: "nat \<rightharpoonup> string" where
  "d_dt_fmt = [8 \<mapsto> ''%Y%m%d'', 12 \<mapsto> ''%Y%m%d%H%M'', 14 \<mapsto> ''%Y%m%d%H%M%S'']"

fun digits_value :: "nat \<Rightarrow> string \<Rightarrow> nat option" where
  "digits_value acc [] = Some acc"
| "digits_value acc (c # cs) =
     (if is_digit c then digits_value (10 * acc + (code_point c - 48)) cs else None)"

text \<open>\<open>split_fields ws s\<close> cuts \<open>s\<close> into numbers of the widths \<open>ws\<close>; nothing may remain.\<close>

fun split_fields :: "nat list \<Rightarrow> string \<Rightarrow> nat list option" where
  "split_fields [] s = (if s = [] then Some [] else None)"
| "split_fields (w # ws) s =
     (if length s < w then None
      else (case digits_value 0 (take w s) of
              None \<Rightarrow> None
            | Some n \<Rightarrow> (case split_fields ws (drop w s) of
                          None \<Rightarrow> None
                        | Some ns \<Rightarrow> Some (n # ns))))"

definition is_leap :: "nat \<Rightarrow> bool" where
  "is_leap y = (y mod 4 = 0 \<and> (y mod 100 \<noteq> 0 \<or> y mod 400 = 0))"

definition days_in_month :: "nat \<Rightarrow> nat \<Rightarrow> nat" where
  "days_in_month y m =
     (if m = 2 then (if is_leap y then 29 else 28)
      else if m \<in> set [4, 6, 9, 11] then 30 else 31)"

text \<open>The range checks of \<^verbatim>\<open>strptime\<close> and of the \<^verbatim>\<open>datetime\<close> constructor.\<close>

definition make_datetime :: "nat list \<Rightarrow> py_error + datetime" where
  "make_datetime ns =
     (case ns @ replicate (6 - length ns) 0 of
        [y, m, d, H, M, S] \<Rightarrow>
          if 1 \<le> y \<and> 1 \<le> m \<and> m \<le> 12 \<and> 1 \<le> d \<and> d \<le> days_in_month y m
             \<and> H \<le> 23 \<and> M \<le> 59 \<and> S \<le> 59
          then Inr \<lparr>year = y, month = m, day = d, hour = H, minute = M, second = S\<rparr>
          else Inl ValueError
      | _ \<Rightarrow> Inl ValueError)"

text \<open>
  \<^verbatim>\<open>datetime.strptime(data, fmt)\<close> for the three formats of \<^verbatim>\<open>d_dt_fmt\<close>, on the
  inputs the module gives it: a string of digits whose length is the one the format stands
  for. On these the library reads the year from four digits and every other field from
  two, and raises \<^verbatim>\<open>ValueError\<close> when a field is out of range or the day does not
  exist; missing fields of the time are 0.
\<close>

definition strptime :: "string \<Rightarrow> string \<Rightarrow> py_error + datetime" where
  "strptime data fmt =
     (let widths =
            (if fmt = ''%Y%m%d'' then Some [4, 2, 2]
             else if fmt = ''%Y%m%d%H%M'' then Some [4, 2, 2, 2, 2]
             else if fmt = ''%Y%m%d%H%M%S'' then Some [4, 2, 2, 2, 2, 2]
             else None)
      in case widths of
           None \<Rightarrow> Inl ValueError
         | Some ws \<Rightarrow> (case split_fields ws data of
                        None \<Rightarrow> Inl ValueError
                      | Some ns \<Rightarrow> make_datetime ns))"

section \<open>The date and value parser\<close>

text \<open>
  The result \<^verbatim>\<open>d_date_value\<close> is a dictionary from the bucket name to the list of
  (timestamp, value) pairs, here a list of (name, pairs) in the dictionary's order.
  An attribute value has the type \<open>'v\<close> and a floating-point number the type \<open>'f\<close>; the
  builtin \<^verbatim>\<open>float\<close> is the parameter \<open>to_float\<close> (\<open>None\<close> where it raises) and
  \<^verbatim>\<open>np.nan\<close> the parameter \<open>nan\<close>. The attributes are the list of
  \<^verbatim>\<open>attributes.items()\<close>, in the dictionary's order.
\<close>

type_synonym 'f buckets = "(string \<times> (datetime \<times> 'f) list) list"

definition d_date_value_init :: "'f buckets" where
  "d_date_value_init =
     [(''los'', []), (''h'', []), (''v'', []),
      (''los_sigma'', []), (''h_sigma'', []), (''v_sigma'', [])]"

text \<open>
  \<^verbatim>\<open>d[name].append(pair)\<close>: the pair goes to the end of the list under \<open>name\<close>, and a
  name that is no key of \<open>d\<close> raises \<^verbatim>\<open>KeyError\<close>.
\<close>

definition add_pair :: "string \<Rightarrow> datetime \<times> 'f \<Rightarrow> 'f buckets \<Rightarrow> 'f buckets" where
  "add_pair name pair d = map (\<lambda>(k, xs). if k = name then (k, xs @ [pair]) else (k, xs)) d"

definition bucket_append :: "string \<Rightarrow> datetime \<times> 'f \<Rightarrow> 'f buckets \<Rightarrow> py_error + 'f buckets" where
  "bucket_append name pair d =
     (if name \<in> set (map fst d) then Inr (add_pair name pair d) else Inl KeyError)"

text \<open>
  The match of one key and the reading of its groups: the key is put in lower case and
  matched against the date pattern, compiled without \<^verbatim>\<open>re.IGNORECASE\<close>; the result
  is \<open>(s_before, s_date, s_time, s_after)\<close>, the groups 1, 2, 4 and 5.
\<close>

definition match_key :: "string \<Rightarrow> (string \<times> string \<times> string \<times> string) option" where
  "match_key key =
     (case re_match False rgx_date (lower key) of
        None \<Rightarrow> None
      | Some p \<Rightarrow>
          Some (group_or_empty p 1, group_or_empty p 2, group_or_empty p 4, group_or_empty p 5))"

text \<open>\<^verbatim>\<open>try: value = float(value)\<close>, \<^verbatim>\<open>except Exception: value = np.nan\<close>\<close>

definition coerce :: "('v \<Rightarrow> 'f option) \<Rightarrow> 'f \<Rightarrow> 'v \<Rightarrow> 'f" where
  "coerce to_float nan v = (case to_float v of Some x \<Rightarrow> x | None \<Rightarrow> nan)"

text \<open>
  The digit string and its timestamp: a length that is no key of \<^verbatim>\<open>d_dt_fmt\<close> raises
  \<^verbatim>\<open>KeyError\<close>, and \<^verbatim>\<open>strptime\<close> may raise \<^verbatim>\<open>ValueError\<close>.
\<close>

definition datetime_str :: "string \<Rightarrow> string \<Rightarrow> string" where
  "datetime_str s_date s_time = strip_separators (s_date @ s_time)"

definition parse_date :: "string \<Rightarrow> string \<Rightarrow> py_error + datetime" where
  "parse_date s_date s_time =
     (case d_dt_fmt (length (datetime_str s_date s_time)) of
        None \<Rightarrow> Inl KeyError
      | Some fmt \<Rightarrow> strptime (datetime_str s_date s_time) fmt)"

text \<open>
  The body of the loop over \<^verbatim>\<open>attributes.items()\<close>. The second \<^verbatim>\<open>float(value)\<close>,
  in the appended pair, is applied to a number and returns it.
\<close>

definition process_item ::
  "('v \<Rightarrow> 'f option) \<Rightarrow> 'f \<Rightarrow> 'f buckets \<Rightarrow> string \<times> 'v \<Rightarrow> py_error + 'f buckets" where
  "process_item to_float nan d kv =
     (case match_key (fst kv) of
        None \<Rightarrow> Inr d
      | Some (s_before, s_date, s_time, s_after) \<Rightarrow>
          (let val = coerce to_float nan (snd kv) in
           (case parse_date s_date s_time of
              Inl e \<Rightarrow> Inl e
            | Inr date_obj \<Rightarrow>
                (let s_tag = strip_separators (s_before @ s_after);
                     key_add = (if any_uncertainty s_tag then ''_sigma'' else [])
                 in if s_tag = [] \<or> str_in ''los'' s_tag
                      then bucket_append (''los'' @ key_add) (date_obj, val) d
                    else if str_in ''h'' s_tag
                      then bucket_append (''h'' @ key_add) (date_obj, val) d
                    else if str_in ''v'' s_tag
                      then bucket_append (''v'' @ key_add) (date_obj, val) d
                    else bucket_append (''los'' @ key_add) (date_obj, val) d))))"

fun extract_loop ::
  "('v \<Rightarrow> 'f option) \<Rightarrow> 'f \<Rightarrow> 'f buckets \<Rightarrow> (string \<times> 'v) list \<Rightarrow> py_error + 'f buckets" where
  "extract_loop to_float nan d [] = Inr d"
| "extract_loop to_float nan d (kv # rest) =
     (case process_item to_float nan d kv of
        Inl e \<Rightarrow> Inl e
      | Inr d' \<Rightarrow> extract_loop to_float nan d' rest)"

text \<open>
  The last loop of the function turns each list into an array of the same pairs in the
  same order; it changes no content and is left out.
\<close>

definition extractDateValueAttributes ::
  "('v \<Rightarrow> 'f option) \<Rightarrow> 'f \<Rightarrow> (string \<times> 'v) list \<Rightarrow> py_error + 'f buckets" where
  "extractDateValueAttributes to_float nan attributes =
     extract_loop to_float nan d_date_value_init attributes"

section \<open>The routing as the specification words it\<close>

definition six_buckets :: "string list" where
  "six_buckets = [''los'', ''h'', ''v'', ''los_sigma'', ''h_sigma'', ''v_sigma'']"

text \<open>
  The bucket of a tag in the words of the specification: the component is \<^verbatim>\<open>los\<close> for
  an empty tag or one containing \<^verbatim>\<open>los\<close>, else \<^verbatim>\<open>h\<close> for one containing
  \<^verbatim>\<open>h\<close>, else \<^verbatim>\<open>v\<close> for one containing \<^verbatim>\<open>v\<close>, else \<^verbatim>\<open>los\<close>; the
  \<^verbatim>\<open>_sigma\<close> variant is taken exactly when the tag contains \<^verbatim>\<open>err\<close>,
  \<^verbatim>\<open>sigma\<close> or \<^verbatim>\<open>std\<close>.
\<close>

definition spec_component :: "string \<Rightarrow> string" where
  "spec_component tag =
     (if tag = [] \<or> str_in ''los'' tag then ''los''
      else if str_in ''h'' tag then ''h''
      else if str_in ''v'' tag then ''v''
      else ''los'')"

definition spec_is_sigma :: "string \<Rightarrow> bool" where
  "spec_is_sigma tag = (str_in ''err'' tag \<or> str_in ''sigma'' tag \<or> str_in ''std'' tag)"

definition spec_bucket :: "string \<Rightarrow> string" where
  "spec_bucket tag = spec_component tag @ (if spec_is_sigma tag then ''_sigma'' else [])"

text \<open>
  What one item adds: the (bucket, pair) entries found after the loop body has run on
  that item alone, from the empty buckets; nothing when the body raises.
\<close>

definition contributions ::
  "('v \<Rightarrow> 'f option) \<Rightarrow> 'f \<Rightarrow> string \<times> 'v \<Rightarrow> (string \<times> datetime \<times> 'f) list" where
  "contributions to_float nan kv =
     (case process_item to_float nan d_date_value_init kv of
        Inl e \<Rightarrow> []
      | Inr d \<Rightarrow> concat (map (\<lambda>(b, xs). map (\<lambda>p. (b, p)) xs) d))"

text \<open>The pairs of the bucket \<open>b\<close> among a list of entries, in their order.\<close>

definition pairs_for :: "string \<Rightarrow> (string \<times> datetime \<times> 'f) list \<Rightarrow> (datetime \<times> 'f) list" where
  "pairs_for b entries = map snd (filter (\<lambda>e. fst e = b) entries)"

text \<open>
  What one item does in the words of the specification (steps 1 to 5 of the parser): a
  key that does not match is skipped (\<open>Inr None\<close>); a matching key gives the bucket of
  its tag and the pair of its timestamp and its coerced value, or the error of the
  timestamp.
\<close>

definition spec_item ::
  "('v \<Rightarrow> 'f option) \<Rightarrow> 'f \<Rightarrow> string \<times> 'v \<Rightarrow> py_error + (string \<times> datetime \<times> 'f) option" where
  "spec_item to_float nan kv =
     (case match_key (fst kv) of
        None \<Rightarrow> Inr None
      | Some (s_before, s_date, s_time, s_after) \<Rightarrow>
          (case parse_date s_date s_time of
             Inl e \<Rightarrow> Inl e
           | Inr ts \<Rightarrow>
               Inr (Some (spec_bucket (strip_separators (s_before @ s_after)),
                          ts, coerce to_float nan (snd kv)))))"

section \<open>The layer validator\<close>

lemma messages_nonempty:
  "msg_invalid_layer \<noteq> [] \<and> msg_not_vector \<noteq> [] \<and> msg_not_point_polygon \<noteq> []
   \<and> msg_no_velocity \<noteq> [] \<and> msg_no_timeseries \<noteq> []"
  by (simp add: msg_invalid_layer_def msg_not_vector_def msg_not_point_polygon_def
      msg_no_velocity_def msg_no_timeseries_def)

text \<open>
  Claim C5. \<open>checkVectorLayer\<close> fails exactly when the layer is \<^verbatim>\<open>None\<close>, reports
  itself invalid, is not a vector layer, or has a geometry type other than 0 (point) and 2
  (polygon). Each kind of failure has its fixed message, none of them empty: the message
  of the first check that fails, in the order just given. Every valid point or polygon
  vector layer gives \<^verbatim>\<open>(True, "")\<close>.
\<close>

theorem checkVectorLayer_contract:
  "((fst (checkVectorLayer lay) = False) =
      (lay = None \<or> (\<exists>l. lay = Some l \<and>
         (\<not> isValid l \<or> ltype l \<noteq> VectorLayer \<or> geometryType l \<notin> {0, 2}))))
   \<and> (lay = None \<longrightarrow> checkVectorLayer lay = (False, msg_invalid_layer))
   \<and> (\<forall>l. lay = Some l \<and> \<not> isValid l \<longrightarrow>
          checkVectorLayer lay = (False, msg_invalid_layer))
   \<and> (\<forall>l. lay = Some l \<and> isValid l \<and> ltype l \<noteq> VectorLayer \<longrightarrow>
          checkVectorLayer lay = (False, msg_not_vector))
   \<and> (\<forall>l. lay = Some l \<and> isValid l \<and> ltype l = VectorLayer \<and> geometryType l \<notin> {0, 2} \<longrightarrow>
          checkVectorLayer lay = (False, msg_not_point_polygon))
   \<and> (\<forall>l. lay = Some l \<and> isValid l \<and> ltype l = VectorLayer \<and> geometryType l \<in> {0, 2} \<longrightarrow>
          checkVectorLayer lay = (True, []))
   \<and> (fst (checkVectorLayer lay) = False \<longrightarrow> snd (checkVectorLayer lay) \<noteq> [])"
  using messages_nonempty by (cases lay) auto

theorem checkVectorLayer_contract_witness:
  "checkVectorLayer
     (Some \<lparr>isValid = True, ltype = VectorLayer, geometryType = 1, field_names = [''id'']\<rparr>)
     = (False, msg_not_point_polygon)
   \<and> checkVectorLayer
     (Some \<lparr>isValid = True, ltype = VectorLayer, geometryType = 2, field_names = [''id'']\<rparr>)
     = (True, [])
   \<and> checkVectorLayer
     (Some \<lparr>isValid = True, ltype = RasterLayer, geometryType = 0, field_names = []\<rparr>)
     = (False, msg_not_vector)"
  using
    checkVectorLayer_contract
      [of "Some \<lparr>isValid = True, ltype = VectorLayer, geometryType = 1, field_names = [''id'']\<rparr>"]
    checkVectorLayer_contract
      [of "Some \<lparr>isValid = True, ltype = VectorLayer, geometryType = 2, field_names = [''id'']\<rparr>"]
    checkVectorLayer_contract
      [of "Some \<lparr>isValid = True, ltype = RasterLayer, geometryType = 0, field_names = []\<rparr>"]
  by simp

section \<open>Substrings\<close>

lemma starts_with_iff: "starts_with p s = (\<exists>ss. s = p @ ss)"
  by (induction p s rule: starts_with.induct) auto

lemma str_in_iff: "str_in sub s = (\<exists>ps ss. s = ps @ sub @ ss)"
proof (induction s)
  case Nil
  then show ?case by auto
next
  case (Cons c cs)
  show ?case
  proof
    assume "str_in sub (c # cs)"
    then consider "starts_with sub (c # cs)" | "str_in sub cs" by auto
    then show "\<exists>ps ss. c # cs = ps @ sub @ ss"
    proof cases
      case 1
      then obtain ss where "c # cs = sub @ ss" by (auto simp: starts_with_iff)
      then have "c # cs = [] @ sub @ ss" by simp
      then show ?thesis by blast
    next
      case 2
      then obtain ps ss where "cs = ps @ sub @ ss" using Cons.IH by auto
      then have "c # cs = (c # ps) @ sub @ ss" by simp
      then show ?thesis by blast
    qed
  next
    assume "\<exists>ps ss. c # cs = ps @ sub @ ss"
    then obtain ps ss where eq: "c # cs = ps @ sub @ ss" by auto
    show "str_in sub (c # cs)"
    proof (cases ps)
      case Nil
      then have "starts_with sub (c # cs)" using eq by (auto simp: starts_with_iff)
      then show ?thesis by simp
    next
      case (Cons p ps')
      then have "cs = ps' @ sub @ ss" using eq by simp
      then have "str_in sub cs" using Cons.IH by auto
      then show ?thesis by simp
    qed
  qed
qed

lemma any_uncertainty_iff:
  "any_uncertainty s = (str_in ''err'' s \<or> str_in ''sigma'' s \<or> str_in ''std'' s)"
  by (simp add: any_uncertainty_def keys_uncertainty_def)

section \<open>Properties of the velocity field locator\<close>

lemma velocity_matches_filter:
  "velocity_matches names =
     filter (\<lambda>n. re_match True rgx_velocity n \<noteq> None \<and> \<not> any_uncertainty n) names"
  by (induction names) auto

lemma first_containing_Some:
  "first_containing opt ms = Some m \<Longrightarrow> m \<in> set ms \<and> str_in opt m"
  by (induction ms) (auto split: if_splits)

lemma first_containing_None:
  "(first_containing opt ms = None) = (\<forall>m \<in> set ms. \<not> str_in opt m)"
  by (induction ms) auto

lemma pick_field_mem: "pick_field opts ms cur \<in> insert cur (set ms)"
proof (induction opts arbitrary: cur)
  case Nil
  then show ?case by simp
next
  case (Cons opt opts)
  show ?case
  proof (cases "first_containing opt ms")
    case None
    then show ?thesis by simp
  next
    case (Some m)
    then have "m \<in> set ms" using first_containing_Some by blast
    moreover have "pick_field opts ms m \<in> insert m (set ms)" using Cons.IH .
    ultimately show ?thesis using Some by auto
  qed
qed

lemma velocity_field_mem:
  assumes "fst (getVectorVelocityFieldName l) = Some n"
  shows "n \<in> set (velocity_matches (field_names l))"
proof -
  let ?ms = "velocity_matches (field_names l)"
  from assms have ne: "?ms \<noteq> []"
    by (auto simp: getVectorVelocityFieldName_def Let_def split: if_splits)
  then have hd_mem: "?ms ! 0 \<in> set ?ms" by (cases ?ms) auto
  have "pick_field velocity_field_name_options ?ms (?ms ! 0) \<in> set ?ms"
    using pick_field_mem [of velocity_field_name_options ?ms "?ms ! 0"] hd_mem by auto
  with assms ne hd_mem show ?thesis
    by (auto simp: getVectorVelocityFieldName_def Let_def split: if_splits)
qed

lemma velocity_matches_example:
  "velocity_matches [''VEL_mean'', ''VEL_err''] = [''VEL_mean'']"
  by code_simp

text \<open>
  Claim C8. A field name returned by \<open>getVectorVelocityFieldName\<close> is a field of the
  layer that matches the velocity pattern and contains none of \<^verbatim>\<open>err\<close>,
  \<^verbatim>\<open>sigma\<close>, \<^verbatim>\<open>std\<close>, and it comes with the empty message. When every field fails
  the pattern or contains an uncertainty keyword, the result is \<^verbatim>\<open>None\<close>; and
  \<^verbatim>\<open>None\<close> always comes with the fixed message, which is not empty. For the fields
  \<^verbatim>\<open>["VEL_mean", "VEL_err"]\<close> the result is \<^verbatim>\<open>"VEL_mean"\<close>.
\<close>

theorem velocity_field_excludes_uncertainty:
  "(\<forall>n. fst (getVectorVelocityFieldName l) = Some n \<longrightarrow>
        n \<in> set (field_names l) \<and> re_match True rgx_velocity n \<noteq> None
        \<and> \<not> str_in ''err'' n \<and> \<not> str_in ''sigma'' n \<and> \<not> str_in ''std'' n
        \<and> snd (getVectorVelocityFieldName l) = [])
   \<and> ((\<forall>n \<in> set (field_names l). re_match True rgx_velocity n = None \<or> any_uncertainty n)
        \<longrightarrow> fst (getVectorVelocityFieldName l) = None)
   \<and> (fst (getVectorVelocityFieldName l) = None \<longrightarrow>
        snd (getVectorVelocityFieldName l) = msg_no_velocity \<and> msg_no_velocity \<noteq> [])
   \<and> getVectorVelocityFieldName (l\<lparr>field_names := [''VEL_mean'', ''VEL_err'']\<rparr>)
        = (Some ''VEL_mean'', [])"
proof (intro conjI allI impI)
  fix n
  assume a: "fst (getVectorVelocityFieldName l) = Some n"
  then have "n \<in> set (velocity_matches (field_names l))" by (rule velocity_field_mem)
  then have m: "n \<in> set (field_names l)" "re_match True rgx_velocity n \<noteq> None"
      "\<not> any_uncertainty n"
    by (auto simp: velocity_matches_filter)
  show "n \<in> set (field_names l)" by (rule m(1))
  show "re_match True rgx_velocity n \<noteq> None" by (rule m(2))
  show "\<not> str_in ''err'' n" using m(3) by (simp add: any_uncertainty_iff)
  show "\<not> str_in ''sigma'' n" using m(3) by (simp add: any_uncertainty_iff)
  show "\<not> str_in ''std'' n" using m(3) by (simp add: any_uncertainty_iff)
  show "snd (getVectorVelocityFieldName l) = []"
    using a by (auto simp: getVectorVelocityFieldName_def Let_def split: if_splits)
next
  assume "\<forall>n \<in> set (field_names l). re_match True rgx_velocity n = None \<or> any_uncertainty n"
  then have "velocity_matches (field_names l) = []"
    by (auto simp: velocity_matches_filter filter_empty_conv)
  then show "fst (getVectorVelocityFieldName l) = None"
    by (simp add: getVectorVelocityFieldName_def)
next
  assume "fst (getVectorVelocityFieldName l) = None"
  then show "snd (getVectorVelocityFieldName l) = msg_no_velocity"
    by (auto simp: getVectorVelocityFieldName_def Let_def split: if_splits)
next
  show "msg_no_velocity \<noteq> []" using messages_nonempty by simp
next
  show "getVectorVelocityFieldName (l\<lparr>field_names := [''VEL_mean'', ''VEL_err'']\<rparr>)
          = (Some ''VEL_mean'', [])"
    by (simp add: getVectorVelocityFieldName_def velocity_matches_example
        del: velocity_matches.simps)
qed

lemma velocity_matches_no_field: "velocity_matches [''id'', ''height''] = []"
  by code_simp

theorem velocity_field_excludes_uncertainty_witness:
  "getVectorVelocityFieldName
     \<lparr>isValid = True, ltype = VectorLayer, geometryType = 0, field_names = [''id'', ''height'']\<rparr>
   = (None, msg_no_velocity)
   \<and> msg_no_velocity \<noteq> []
   \<and> getVectorVelocityFieldName
     \<lparr>isValid = True, ltype = VectorLayer, geometryType = 0,
        field_names = [''VEL_mean'', ''VEL_err'']\<rparr>
   = (Some ''VEL_mean'', [])
   \<and> \<not> str_in ''err'' ''VEL_mean''"
proof -
  let ?l = "\<lparr>isValid = True, ltype = VectorLayer, geometryType = 0,
              field_names = [''id'', ''height'']\<rparr>"
  let ?k = "\<lparr>isValid = True, ltype = VectorLayer, geometryType = 0,
              field_names = [''VEL_mean'', ''VEL_err'']\<rparr>"
  have none: "fst (getVectorVelocityFieldName ?l) = None"
    by (simp add: getVectorVelocityFieldName_def velocity_matches_no_field
        del: velocity_matches.simps)
  from velocity_field_excludes_uncertainty [of ?l] none
  have 1: "snd (getVectorVelocityFieldName ?l) = msg_no_velocity \<and> msg_no_velocity \<noteq> []"
    by blast
  have some: "fst (getVectorVelocityFieldName ?k) = Some ''VEL_mean''"
    by (simp add: getVectorVelocityFieldName_def velocity_matches_example
        del: velocity_matches.simps)
  from velocity_field_excludes_uncertainty [of ?k] some
  have 2: "\<not> str_in ''err'' ''VEL_mean'' \<and> snd (getVectorVelocityFieldName ?k) = []"
    by blast
  from none 1 some 2 show ?thesis by (simp add: prod_eq_iff)
qed

lemma velocity_matches_upper: "velocity_matches [''VEL_ERR''] = [''VEL_ERR'']"
  by code_simp

lemma velocity_matches_lower: "velocity_matches [''VEL_err''] = []"
  by code_simp

lemma velocity_pattern_both:
  "re_match True rgx_velocity ''VEL_ERR'' \<noteq> None \<and> re_match True rgx_velocity ''VEL_err'' \<noteq> None"
  by code_simp

lemma uncertainty_case_sensitive: "any_uncertainty ''VEL_err'' \<and> \<not> any_uncertainty ''VEL_ERR''"
  by code_simp

text \<open>
  Claim C10. The velocity pattern matches both \<^verbatim>\<open>VEL_ERR\<close> and \<^verbatim>\<open>VEL_err\<close> (it
  ignores case), but the uncertainty test holds of \<^verbatim>\<open>VEL_err\<close> only (it does not). So
  a layer whose only field is \<^verbatim>\<open>VEL_ERR\<close> gets that field as its velocity field, and a
  layer whose only field is \<^verbatim>\<open>VEL_err\<close> gets none.
\<close>

theorem uncertainty_exclusion_case_sensitive:
  "re_match True rgx_velocity ''VEL_ERR'' \<noteq> None
   \<and> re_match True rgx_velocity ''VEL_err'' \<noteq> None
   \<and> any_uncertainty ''VEL_err'' \<and> \<not> any_uncertainty ''VEL_ERR''
   \<and> getVectorVelocityFieldName (l\<lparr>field_names := [''VEL_ERR'']\<rparr>) = (Some ''VEL_ERR'', [])
   \<and> getVectorVelocityFieldName (l\<lparr>field_names := [''VEL_err'']\<rparr>) = (None, msg_no_velocity)"
  using velocity_pattern_both uncertainty_case_sensitive
  by (simp add: getVectorVelocityFieldName_def velocity_matches_upper velocity_matches_lower
      del: velocity_matches.simps)

lemma velocity_matches_two: "velocity_matches [''my_vel'', ''VEL_x''] = [''my_vel'', ''VEL_x'']"
  by code_simp

lemma first_containing_two:
  "first_containing ''velocity'' [''my_vel'', ''VEL_x''] = None
   \<and> first_containing ''VEL'' [''my_vel'', ''VEL_x''] = Some ''VEL_x''"
  by code_simp

lemma pick_field_two:
  "pick_field velocity_field_name_options [''my_vel'', ''VEL_x''] ''my_vel'' = ''my_vel''"
  by code_simp

text \<open>
  Claim C1, at the fields \<^verbatim>\<open>["my_vel", "VEL_x"]\<close>. Both names are candidates. No
  candidate contains the first option \<^verbatim>\<open>velocity\<close>, so the outer loop ends at once
  and the result is the first candidate \<^verbatim>\<open>my_vel\<close>, although the second option
  \<^verbatim>\<open>VEL\<close> is the first one that occurs in a candidate, and \<^verbatim>\<open>VEL_x\<close> the first
  candidate that contains it.
\<close>

theorem velocity_preference_stops_at_first_miss:
  "velocity_matches [''my_vel'', ''VEL_x''] = [''my_vel'', ''VEL_x'']
   \<and> first_containing ''velocity'' [''my_vel'', ''VEL_x''] = None
   \<and> first_containing ''VEL'' [''my_vel'', ''VEL_x''] = Some ''VEL_x''
   \<and> getVectorVelocityFieldName (l\<lparr>field_names := [''my_vel'', ''VEL_x'']\<rparr>)
        = (Some ''my_vel'', [])"
  using first_containing_two
  by (simp add: getVectorVelocityFieldName_def velocity_matches_two pick_field_two
      del: velocity_matches.simps pick_field.simps first_containing.simps)

section \<open>The time series check\<close>

lemma has_date_field_iff:
  "has_date_field names = (\<exists>n \<in> set names. re_match True rgx_date n \<noteq> None)"
  by (induction names) auto

text \<open>
  Claim C6. When \<open>checkVectorLayer\<close> fails, \<open>checkVectorLayerTimeseries\<close> returns its
  result unchanged. Otherwise the layer is a layer, the result is \<^verbatim>\<open>(True, "")\<close>
  exactly when some field name matches the date pattern, and it is \<^verbatim>\<open>False\<close> with the
  fixed message, which is not empty, exactly when none does. The function never raises.
\<close>

theorem checkVectorLayerTimeseries_contract:
  "(fst (checkVectorLayer lay) = False \<longrightarrow>
      checkVectorLayerTimeseries lay = Inr (checkVectorLayer lay))
   \<and> (fst (checkVectorLayer lay) = True \<longrightarrow>
      (\<exists>l. lay = Some l
         \<and> ((checkVectorLayerTimeseries lay = Inr (True, [])) =
              (\<exists>n \<in> set (field_names l). re_match True rgx_date n \<noteq> None))
         \<and> ((checkVectorLayerTimeseries lay = Inr (False, msg_no_timeseries)) =
              (\<forall>n \<in> set (field_names l). re_match True rgx_date n = None))))
   \<and> msg_no_timeseries \<noteq> []"
proof (intro conjI impI)
  assume f: "fst (checkVectorLayer lay) = False"
  obtain st m where r: "checkVectorLayer lay = (st, m)" by (cases "checkVectorLayer lay")
  with f have "st = False" by simp
  then show "checkVectorLayerTimeseries lay = Inr (checkVectorLayer lay)"
    using r by (simp add: checkVectorLayerTimeseries_def del: checkVectorLayer.simps)
next
  assume ok: "fst (checkVectorLayer lay) = True"
  then obtain l where l: "lay = Some l" by (cases lay) auto
  from ok l have res: "checkVectorLayer (Some l) = (True, [])"
    by (auto split: if_splits)
  have eq: "checkVectorLayerTimeseries lay =
      (if has_date_field (field_names l) then Inr (True, []) else Inr (False, msg_no_timeseries))"
    using l res by (simp add: checkVectorLayerTimeseries_def del: checkVectorLayer.simps)
  have "(checkVectorLayerTimeseries lay = Inr (True, [])) =
          (\<exists>n \<in> set (field_names l). re_match True rgx_date n \<noteq> None)"
    using eq by (simp add: has_date_field_iff)
  moreover have "(checkVectorLayerTimeseries lay = Inr (False, msg_no_timeseries)) =
          (\<forall>n \<in> set (field_names l). re_match True rgx_date n = None)"
    using eq by (simp add: has_date_field_iff)
  ultimately show "\<exists>l. lay = Some l
         \<and> ((checkVectorLayerTimeseries lay = Inr (True, [])) =
              (\<exists>n \<in> set (field_names l). re_match True rgx_date n \<noteq> None))
         \<and> ((checkVectorLayerTimeseries lay = Inr (False, msg_no_timeseries)) =
              (\<forall>n \<in> set (field_names l). re_match True rgx_date n = None))"
    using l by blast
next
  show "msg_no_timeseries \<noteq> []" using messages_nonempty by simp
qed

lemma date_pattern_examples:
  "re_match True rgx_date ''id'' = None \<and> re_match True rgx_date ''D20200101'' \<noteq> None"
  by code_simp

theorem checkVectorLayerTimeseries_contract_witness:
  "checkVectorLayerTimeseries
     (Some \<lparr>isValid = True, ltype = VectorLayer, geometryType = 0,
            field_names = [''id'', ''D20200101'']\<rparr>) = Inr (True, [])
   \<and> checkVectorLayerTimeseries
     (Some \<lparr>isValid = True, ltype = VectorLayer, geometryType = 0,
            field_names = [''id'']\<rparr>) = Inr (False, msg_no_timeseries)
   \<and> checkVectorLayerTimeseries
     (Some \<lparr>isValid = True, ltype = VectorLayer, geometryType = 1,
            field_names = [''D20200101'']\<rparr>) = Inr (False, msg_not_point_polygon)"
  using
    checkVectorLayerTimeseries_contract
      [of "Some \<lparr>isValid = True, ltype = VectorLayer, geometryType = 0,
                  field_names = [''id'', ''D20200101'']\<rparr>"]
    checkVectorLayerTimeseries_contract
      [of "Some \<lparr>isValid = True, ltype = VectorLayer, geometryType = 0,
                  field_names = [''id'']\<rparr>"]
    checkVectorLayerTimeseries_contract
      [of "Some \<lparr>isValid = True, ltype = VectorLayer, geometryType = 1,
                  field_names = [''D20200101'']\<rparr>"]
    date_pattern_examples
  by simp

section \<open>Properties of the date and value parser\<close>

lemma init_keys: "map fst (d_date_value_init :: 'f buckets) = six_buckets"
  by (simp add: d_date_value_init_def six_buckets_def)

lemma spec_bucket_mem: "spec_bucket tag \<in> set six_buckets"
  by (simp add: spec_bucket_def spec_component_def six_buckets_def)

lemma map_fst_add_pair: "map fst (add_pair b p d) = map fst d"
  by (induction d) (auto simp: add_pair_def)

lemma map_of_add_pair:
  "map_of (add_pair b p d) k =
     (if k = b then map_option (\<lambda>xs. xs @ [p]) (map_of d k) else map_of d k)"
  by (induction d) (auto simp: add_pair_def)

lemma bucket_append_ok:
  "b \<in> set (map fst d) \<Longrightarrow> bucket_append b p d = Inr (add_pair b p d)"
  by (simp add: bucket_append_def)

text \<open>The four branches of the loop body are the routing of the specification.\<close>

lemma process_item_routes:
  "process_item tf nan d kv =
     (case match_key (fst kv) of
        None \<Rightarrow> Inr d
      | Some (sb, sd, st, sa) \<Rightarrow>
          (case parse_date sd st of
             Inl e \<Rightarrow> Inl e
           | Inr ts \<Rightarrow>
               bucket_append (spec_bucket (strip_separators (sb @ sa)))
                 (ts, coerce tf nan (snd kv)) d))"
  by (simp add: process_item_def Let_def spec_bucket_def spec_component_def spec_is_sigma_def
      any_uncertainty_iff split: option.splits sum.splits prod.splits)

lemma process_item_spec:
  assumes "map fst d = six_buckets"
  shows "process_item tf nan d kv =
     (case spec_item tf nan kv of
        Inl e \<Rightarrow> Inl e
      | Inr None \<Rightarrow> Inr d
      | Inr (Some (b, p)) \<Rightarrow> Inr (add_pair b p d))"
  using assms spec_bucket_mem
  by (simp add: process_item_routes spec_item_def bucket_append_ok
      split: option.splits sum.splits prod.splits)

lemma spec_item_bucket: "spec_item tf nan kv = Inr (Some (b, p)) \<Longrightarrow> b \<in> set six_buckets"
  using spec_bucket_mem
  by (auto simp: spec_item_def split: option.splits sum.splits prod.splits)

lemma entries_of_single:
  assumes "b \<in> set six_buckets"
  shows "concat (map (\<lambda>(k, xs). map (\<lambda>q. (k, q)) xs) (add_pair b p d_date_value_init))
           = [(b, p)]"
  using assms by (auto simp: six_buckets_def add_pair_def d_date_value_init_def)

lemma entries_of_init:
  "concat (map (\<lambda>(k, xs). map (\<lambda>q. (k, q)) xs) (d_date_value_init :: 'f buckets)) = []"
  by (simp add: d_date_value_init_def)

lemma contributions_spec:
  "contributions tf nan kv =
     (case spec_item tf nan kv of Inl e \<Rightarrow> [] | Inr None \<Rightarrow> [] | Inr (Some e) \<Rightarrow> [e])"
proof (cases "spec_item tf nan kv")
  case (Inl e)
  then show ?thesis by (simp add: contributions_def process_item_spec [OF init_keys])
next
  case (Inr r)
  show ?thesis
  proof (cases r)
    case None
    with Inr show ?thesis
      by (simp add: contributions_def process_item_spec [OF init_keys] entries_of_init)
  next
    case (Some e)
    obtain b p where e: "e = (b, p)" by (cases e)
    from Inr Some e have "spec_item tf nan kv = Inr (Some (b, p))" by simp
    then have "b \<in> set six_buckets" by (rule spec_item_bucket)
    with Inr Some e show ?thesis
      by (simp add: contributions_def process_item_spec [OF init_keys] entries_of_single)
  qed
qed

text \<open>The loop keeps the six keys and adds the entries of the items in their order.\<close>

lemma extract_loop_entries:
  assumes "extract_loop tf nan d items = Inr d'" and "map fst d = six_buckets"
  shows "d' = foldl (\<lambda>acc e. add_pair (fst e) (snd e) acc) d
                (concat (map (contributions tf nan) items))
         \<and> map fst d' = six_buckets
         \<and> (\<forall>kv \<in> set items. \<exists>r. spec_item tf nan kv = Inr r)"
  using assms
proof (induction items arbitrary: d)
  case Nil
  then show ?case by simp
next
  case (Cons kv rest)
  from Cons.prems obtain d1 where
    step: "process_item tf nan d kv = Inr d1" and
    loop: "extract_loop tf nan d1 rest = Inr d'"
    by (auto split: sum.splits)
  from step Cons.prems(2) obtain r where r: "spec_item tf nan kv = Inr r"
    by (cases "spec_item tf nan kv") (auto simp: process_item_spec)
  have d1: "d1 = foldl (\<lambda>acc e. add_pair (fst e) (snd e) acc) d (contributions tf nan kv)"
    using step r Cons.prems(2)
    by (cases r) (auto simp: process_item_spec contributions_spec)
  have k1: "map fst d1 = six_buckets"
    using step r Cons.prems(2)
    by (cases r) (auto simp: process_item_spec map_fst_add_pair)
  from Cons.IH [OF loop k1] have
    A: "d' = foldl (\<lambda>acc e. add_pair (fst e) (snd e) acc) d1
               (concat (map (contributions tf nan) rest))" and
    B: "map fst d' = six_buckets" and
    C: "\<forall>kv \<in> set rest. \<exists>r. spec_item tf nan kv = Inr r"
    by blast+
  show ?case
  proof (intro conjI)
    show "d' = foldl (\<lambda>acc e. add_pair (fst e) (snd e) acc) d
                 (concat (map (contributions tf nan) (kv # rest)))"
      using A d1 by simp
    show "map fst d' = six_buckets" by (rule B)
    show "\<forall>kv \<in> set (kv # rest). \<exists>r. spec_item tf nan kv = Inr r"
      using C r by simp
  qed
qed

lemma map_of_foldl_add_pair:
  "map_of (foldl (\<lambda>acc e. add_pair (fst e) (snd e) acc) d es) k =
     map_option (\<lambda>xs. xs @ pairs_for k es) (map_of d k)"
proof (induction es arbitrary: d)
  case Nil
  then show ?case by (simp add: pairs_for_def option.map_ident)
next
  case (Cons e es)
  show ?case
    by (simp add: Cons.IH map_of_add_pair pairs_for_def option.map_comp comp_def)
qed

lemma map_of_init: "b \<in> set six_buckets \<Longrightarrow> map_of (d_date_value_init :: 'f buckets) b = Some []"
  by (auto simp: six_buckets_def d_date_value_init_def)

lemma extract_loop_append:
  "extract_loop tf nan d (xs @ ys) =
     (case extract_loop tf nan d xs of Inl e \<Rightarrow> Inl e | Inr d1 \<Rightarrow> extract_loop tf nan d1 ys)"
  by (induction xs arbitrary: d) (auto split: sum.splits)

subsection \<open>Keys evaluated\<close>

lemma key_h_err: "match_key ''h20200101_err'' = Some (''h'', ''20200101'', [], ''_err'')"
  by code_simp

lemma key_plain: "match_key ''20200101'' = Some ([], ''20200101'', [], [])"
  by code_simp

lemma key_id: "match_key ''id'' = None"
  by code_simp

lemma date_20200101:
  "parse_date ''20200101'' [] =
     Inr \<lparr>year = 2020, month = 1, day = 1, hour = 0, minute = 0, second = 0\<rparr>"
  by code_simp

lemma bucket_h_err: "spec_bucket (strip_separators ''h_err'') = ''h_sigma''"
  by code_simp

lemma bucket_empty: "spec_bucket (strip_separators []) = ''los''"
  by code_simp

lemma extract_h_err:
  "extractDateValueAttributes tf nan [(''h20200101_err'', v)] =
     Inr [(''los'', []), (''h'', []), (''v'', []), (''los_sigma'', []),
          (''h_sigma'',
             [(\<lparr>year = 2020, month = 1, day = 1, hour = 0, minute = 0, second = 0\<rparr>,
               coerce tf nan v)]),
          (''v_sigma'', [])]"
  by (simp add: extractDateValueAttributes_def process_item_routes key_h_err date_20200101
      bucket_h_err bucket_append_def add_pair_def d_date_value_init_def)

text \<open>
  The routing on a key whose timestamp parses. The loop body appends the pair of the
  timestamp and the coerced value to the bucket that the specification names for the tag,
  the separator-stripped text before and after the date: the component by the tests for
  the empty tag, \<^verbatim>\<open>los\<close>, \<^verbatim>\<open>h\<close> and \<^verbatim>\<open>v\<close> in this order with \<^verbatim>\<open>los\<close> as
  the fallback, and its \<^verbatim>\<open>_sigma\<close> variant exactly when the tag contains
  \<^verbatim>\<open>err\<close>, \<^verbatim>\<open>sigma\<close> or \<^verbatim>\<open>std\<close>. The bucket is one of the six, and no other
  bucket changes. The key \<^verbatim>\<open>h20200101_err\<close> gives an entry for 2020-01-01 in
  \<^verbatim>\<open>h_sigma\<close>.
\<close>

lemma process_item_routes_by_tag:
  assumes "map fst d = six_buckets"
    and "match_key key = Some (s_before, s_date, s_time, s_after)"
    and "parse_date s_date s_time = Inr ts"
  shows "process_item to_float nan d (key, v) =
           Inr (add_pair (spec_bucket (strip_separators (s_before @ s_after)))
                  (ts, coerce to_float nan v) d)
         \<and> spec_bucket (strip_separators (s_before @ s_after)) \<in> set six_buckets
         \<and> (spec_is_sigma (strip_separators (s_before @ s_after)) =
              (str_in ''err'' (strip_separators (s_before @ s_after))
               \<or> str_in ''sigma'' (strip_separators (s_before @ s_after))
               \<or> str_in ''std'' (strip_separators (s_before @ s_after))))
         \<and> extractDateValueAttributes to_float nan [(''h20200101_err'', v)] =
             Inr [(''los'', []), (''h'', []), (''v'', []), (''los_sigma'', []),
                  (''h_sigma'',
                     [(\<lparr>year = 2020, month = 1, day = 1, hour = 0, minute = 0, second = 0\<rparr>,
                       coerce to_float nan v)]),
                  (''v_sigma'', [])]"
proof (intro conjI)
  let ?b = "spec_bucket (strip_separators (s_before @ s_after))"
  have mem: "?b \<in> set (map fst d)" using assms(1) spec_bucket_mem by simp
  show "process_item to_float nan d (key, v) = Inr (add_pair ?b (ts, coerce to_float nan v) d)"
    using assms(2,3) mem by (simp add: process_item_routes bucket_append_ok)
  show "?b \<in> set six_buckets" by (rule spec_bucket_mem)
  show "spec_is_sigma (strip_separators (s_before @ s_after)) =
          (str_in ''err'' (strip_separators (s_before @ s_after))
           \<or> str_in ''sigma'' (strip_separators (s_before @ s_after))
           \<or> str_in ''std'' (strip_separators (s_before @ s_after)))"
    by (simp add: spec_is_sigma_def)
  show "extractDateValueAttributes to_float nan [(''h20200101_err'', v)] =
          Inr [(''los'', []), (''h'', []), (''v'', []), (''los_sigma'', []),
               (''h_sigma'',
                  [(\<lparr>year = 2020, month = 1, day = 1, hour = 0, minute = 0, second = 0\<rparr>,
                    coerce to_float nan v)]),
               (''v_sigma'', [])]"
    by (rule extract_h_err)
qed

lemma process_item_routes_by_tag_example:
  "process_item (\<lambda>v. if v = ''5.3'' then Some ''5.3'' else None) ''nan''
     d_date_value_init (''h20200101_err'', ''5.3'') =
     Inr [(''los'', []), (''h'', []), (''v'', []), (''los_sigma'', []),
          (''h_sigma'',
             [(\<lparr>year = 2020, month = 1, day = 1, hour = 0, minute = 0, second = 0\<rparr>,
               ''5.3'')]),
          (''v_sigma'', [])]"
  using process_item_routes_by_tag
    [OF init_keys key_h_err date_20200101,
      of "\<lambda>v. if v = ''5.3'' then Some ''5.3'' else None" "''nan''" "''5.3''"]
  by (simp add: bucket_h_err add_pair_def d_date_value_init_def coerce_def)

lemma process_item_same_value:
  assumes "coerce tf nan v = coerce tf nan v'"
  shows "process_item tf nan d (key, v) = process_item tf nan d (key, v')"
  using assms
  by (auto simp: process_item_routes split: option.splits sum.splits prod.splits)

text \<open>
  The coercion on a key whose timestamp parses. A value on which \<^verbatim>\<open>float\<close> raises is
  coerced to not-a-number, whatever the key. For a matching key whose timestamp parses,
  the loop body then records the pair of the timestamp and not-a-number in the bucket of
  the tag and does not raise. Within a whole mapping such a value is processed exactly as
  a value that is not-a-number already.
\<close>

lemma non_numeric_value_recorded_as_nan:
  assumes "(to_float :: 'v \<Rightarrow> 'f option) v = None"
  shows "coerce to_float nan v = nan
         \<and> (\<forall>d s_before s_date s_time s_after ts.
               map fst d = six_buckets
               \<and> match_key key = Some (s_before, s_date, s_time, s_after)
               \<and> parse_date s_date s_time = Inr ts \<longrightarrow>
                 process_item to_float nan d (key, v) =
                   Inr (add_pair (spec_bucket (strip_separators (s_before @ s_after)))
                          (ts, nan) d)
                 \<and> contributions to_float nan (key, v) =
                     [(spec_bucket (strip_separators (s_before @ s_after)), ts, nan)])
         \<and> (\<forall>v' before after. to_float v' = Some nan \<longrightarrow>
               extractDateValueAttributes to_float nan (before @ (key, v) # after) =
               extractDateValueAttributes to_float nan (before @ (key, v') # after))"
proof (intro conjI allI impI)
  show c: "coerce to_float nan v = nan" using assms by (simp add: coerce_def)
  {
    fix d :: "'f buckets" and s_before s_date s_time s_after ts
    let ?b = "spec_bucket (strip_separators (s_before @ s_after))"
    assume h: "map fst d = six_buckets
               \<and> match_key key = Some (s_before, s_date, s_time, s_after)
               \<and> parse_date s_date s_time = Inr ts"
    then have mem: "?b \<in> set (map fst d)" using spec_bucket_mem by simp
    show "process_item to_float nan d (key, v) = Inr (add_pair ?b (ts, nan) d)"
      using h mem c by (simp add: process_item_routes bucket_append_ok)
    show "contributions to_float nan (key, v) = [(?b, ts, nan)]"
      using h c by (simp add: contributions_spec spec_item_def)
  }
next
  fix v' before after
  assume "to_float v' = Some nan"
  then have "coerce to_float nan v = coerce to_float nan v'"
    using assms by (simp add: coerce_def)
  then have step: "\<And>d. process_item to_float nan d (key, v) = process_item to_float nan d (key, v')"
    by (rule process_item_same_value)
  show "extractDateValueAttributes to_float nan (before @ (key, v) # after) =
        extractDateValueAttributes to_float nan (before @ (key, v') # after)"
    by (simp add: extractDateValueAttributes_def extract_loop_append step split: sum.splits)
qed

lemma extract_null_example:
  "extractDateValueAttributes (\<lambda>v. if v = ''5.3'' then Some ''5.3'' else None) ''nan''
     [(''id'', ''7''), (''20200101'', ''NULL''), (''h20200101_err'', ''5.3'')] =
     Inr [(''los'',
             [(\<lparr>year = 2020, month = 1, day = 1, hour = 0, minute = 0, second = 0\<rparr>,
               ''nan'')]),
          (''h'', []), (''v'', []), (''los_sigma'', []),
          (''h_sigma'',
             [(\<lparr>year = 2020, month = 1, day = 1, hour = 0, minute = 0, second = 0\<rparr>,
               ''5.3'')]),
          (''v_sigma'', [])]"
  by (simp add: extractDateValueAttributes_def process_item_routes key_h_err key_plain key_id
      date_20200101 bucket_h_err bucket_empty bucket_append_def add_pair_def
      d_date_value_init_def coerce_def)

lemma non_numeric_value_recorded_as_nan_example:
  "process_item (\<lambda>v. if v = ''5.3'' then Some ''5.3'' else None) ''nan''
     d_date_value_init (''20200101'', ''NULL'') =
     Inr [(''los'',
             [(\<lparr>year = 2020, month = 1, day = 1, hour = 0, minute = 0, second = 0\<rparr>,
               ''nan'')]),
          (''h'', []), (''v'', []), (''los_sigma'', []), (''h_sigma'', []), (''v_sigma'', [])]
   \<and> contributions (\<lambda>v. if v = ''5.3'' then Some ''5.3'' else None) ''nan''
        (''20200101'', ''NULL'') =
       [(''los'', \<lparr>year = 2020, month = 1, day = 1, hour = 0, minute = 0, second = 0\<rparr>,
         ''nan'')]"
proof -
  let ?tf = "\<lambda>v. if v = ''5.3'' then Some ''5.3'' else None"
  have none: "?tf ''NULL'' = None" by simp
  from non_numeric_value_recorded_as_nan
    [where to_float = ?tf and v = "''NULL''" and nan = "''nan''" and key = "''20200101''",
      OF none]
    init_keys key_plain date_20200101
  have "process_item ?tf ''nan'' d_date_value_init (''20200101'', ''NULL'') =
          Inr (add_pair (spec_bucket (strip_separators ([] @ [])))
                 (\<lparr>year = 2020, month = 1, day = 1, hour = 0, minute = 0, second = 0\<rparr>, ''nan'')
                 d_date_value_init)
        \<and> contributions ?tf ''nan'' (''20200101'', ''NULL'') =
            [(spec_bucket (strip_separators ([] @ [])),
              \<lparr>year = 2020, month = 1, day = 1, hour = 0, minute = 0, second = 0\<rparr>, ''nan'')]"
    by blast
  then show ?thesis
    by (simp add: bucket_empty add_pair_def d_date_value_init_def)
qed

text \<open>
  Claim C9. When the extraction succeeds, the result has exactly the six keys, in the
  order \<^verbatim>\<open>los\<close>, \<^verbatim>\<open>h\<close>, \<^verbatim>\<open>v\<close>, \<^verbatim>\<open>los_sigma\<close>, \<^verbatim>\<open>h_sigma\<close>,
  \<^verbatim>\<open>v_sigma\<close>, and every bucket holds exactly the pairs that the items contribute to
  it, in the order of the items. An item whose key does not match the date pattern
  contributes nothing; an item whose key matches contributes exactly one entry: one pair,
  of its coerced value, in one of the six buckets. The empty mapping gives the six empty
  buckets.
\<close>

theorem every_matching_key_in_one_bucket:
  assumes "extractDateValueAttributes to_float nan attributes = Inr d"
  shows "map fst d = six_buckets
         \<and> (\<forall>b \<in> set six_buckets.
               map_of d b =
                 Some (pairs_for b (concat (map (contributions to_float nan) attributes))))
         \<and> (\<forall>kv \<in> set attributes. match_key (fst kv) = None \<longrightarrow>
               contributions to_float nan kv = [])
         \<and> (\<forall>kv \<in> set attributes. match_key (fst kv) \<noteq> None \<longrightarrow>
               (\<exists>b ts. b \<in> set six_buckets
                  \<and> contributions to_float nan kv = [(b, ts, coerce to_float nan (snd kv))]))
         \<and> extractDateValueAttributes to_float nan [] =
             Inr [(''los'', []), (''h'', []), (''v'', []),
                  (''los_sigma'', []), (''h_sigma'', []), (''v_sigma'', [])]"
proof (intro conjI ballI impI)
  from assms have loop: "extract_loop to_float nan d_date_value_init attributes = Inr d"
    by (simp add: extractDateValueAttributes_def)
  note facts = extract_loop_entries [OF loop init_keys]
  show "map fst d = six_buckets" using facts by blast
  show "extractDateValueAttributes to_float nan [] =
          Inr [(''los'', []), (''h'', []), (''v'', []),
               (''los_sigma'', []), (''h_sigma'', []), (''v_sigma'', [])]"
    by (simp add: extractDateValueAttributes_def d_date_value_init_def)
  {
    fix b assume b: "b \<in> set six_buckets"
    have "d = foldl (\<lambda>acc e. add_pair (fst e) (snd e) acc) d_date_value_init
                (concat (map (contributions to_float nan) attributes))"
      using facts by blast
    then have "map_of d b =
        map_option (\<lambda>xs. xs @ pairs_for b (concat (map (contributions to_float nan) attributes)))
          (map_of d_date_value_init b)"
      by (simp only: map_of_foldl_add_pair)
    then show "map_of d b =
        Some (pairs_for b (concat (map (contributions to_float nan) attributes)))"
      using map_of_init [OF b] by simp
  }
  {
    fix kv assume "kv \<in> set attributes" and "match_key (fst kv) = None"
    then show "contributions to_float nan kv = []"
      by (simp add: contributions_spec spec_item_def)
  }
  {
    fix kv assume kv: "kv \<in> set attributes" and m: "match_key (fst kv) \<noteq> None"
    from facts kv obtain r where r: "spec_item to_float nan kv = Inr r" by blast
    from m obtain sb sd st sa where g: "match_key (fst kv) = Some (sb, sd, st, sa)"
      by (cases "match_key (fst kv)") auto
    from r g obtain ts where ts: "parse_date sd st = Inr ts"
      by (cases "parse_date sd st") (auto simp: spec_item_def)
    have "contributions to_float nan kv =
            [(spec_bucket (strip_separators (sb @ sa)), ts, coerce to_float nan (snd kv))]"
      using g ts by (simp add: contributions_spec spec_item_def)
    then show "\<exists>b ts. b \<in> set six_buckets
        \<and> contributions to_float nan kv = [(b, ts, coerce to_float nan (snd kv))]"
      using spec_bucket_mem by blast
  }
qed

theorem every_matching_key_in_one_bucket_witness:
  "map_of
     [(''los'',
         [(\<lparr>year = 2020, month = 1, day = 1, hour = 0, minute = 0, second = 0\<rparr>, ''nan'')]),
      (''h'', []), (''v'', []), (''los_sigma'', []),
      (''h_sigma'',
         [(\<lparr>year = 2020, month = 1, day = 1, hour = 0, minute = 0, second = 0\<rparr>, ''5.3'')]),
      (''v_sigma'', [])] ''h_sigma''
   = Some (pairs_for ''h_sigma''
       (concat (map (contributions (\<lambda>v. if v = ''5.3'' then Some ''5.3'' else None) ''nan'')
          [(''id'', ''7''), (''20200101'', ''NULL''), (''h20200101_err'', ''5.3'')])))
   \<and> contributions (\<lambda>v. if v = ''5.3'' then Some ''5.3'' else None) ''nan'' (''id'', ''7'') = []"
proof -
  let ?tf = "\<lambda>v. if v = ''5.3'' then Some ''5.3'' else None"
  note main = every_matching_key_in_one_bucket [OF extract_null_example]
  have 1: "''h_sigma'' \<in> set six_buckets" by (simp add: six_buckets_def)
  have 2: "(''id'', ''7'') \<in>
      set [(''id'', ''7''), (''20200101'', ''NULL''), (''h20200101_err'', ''5.3'')]" by simp
  have 3: "match_key (fst (''id'', ''7'')) = None" by (simp add: key_id)
  from main 1 have A: "map_of
     [(''los'',
         [(\<lparr>year = 2020, month = 1, day = 1, hour = 0, minute = 0, second = 0\<rparr>, ''nan'')]),
      (''h'', []), (''v'', []), (''los_sigma'', []),
      (''h_sigma'',
         [(\<lparr>year = 2020, month = 1, day = 1, hour = 0, minute = 0, second = 0\<rparr>, ''5.3'')]),
      (''v_sigma'', [])] ''h_sigma''
   = Some (pairs_for ''h_sigma''
       (concat (map (contributions ?tf ''nan'')
          [(''id'', ''7''), (''20200101'', ''NULL''), (''h20200101_err'', ''5.3'')])))"
    by blast
  from main 2 3 have B: "contributions ?tf ''nan'' (''id'', ''7'') = []" by blast
  from A B show ?thesis by blast
qed

subsection \<open>Keys on which the timestamp fails\<close>

lemma key_five_digit_time:
  "match_key ''1999010112305'' = Some ([], ''19990101'', ''12305'', [])"
  by code_simp

lemma date_five_digit_time:
  "datetime_str ''19990101'' ''12305'' = ''1999010112305''
   \<and> d_dt_fmt 13 = None
   \<and> parse_date ''19990101'' ''12305'' = Inl KeyError"
  by code_simp

lemma key_month_13: "match_key ''20201301'' = Some ([], ''20201301'', [], [])"
  by code_simp

lemma date_month_13:
  "datetime_str ''20201301'' [] = ''20201301'' \<and> parse_date ''20201301'' [] = Inl ValueError"
  by code_simp

text \<open>
  Claim C3, at the keys \<^verbatim>\<open>1999010112305\<close> and \<^verbatim>\<open>20201301\<close>. Both match the date
  pattern. For the first the time group takes the five digits \<^verbatim>\<open>12305\<close> (the last two
  digits of the time are optional one by one), the digit string has length 13, the table
  of formats has no entry for it and the lookup raises \<^verbatim>\<open>KeyError\<close>. For the second
  the digit string has length 8, but the pattern lets the month 13 through and
  \<^verbatim>\<open>strptime\<close> raises \<^verbatim>\<open>ValueError\<close>.
\<close>

theorem timestamp_of_matching_key_can_fail:
  "match_key ''1999010112305'' = Some ([], ''19990101'', ''12305'', [])
   \<and> length (datetime_str ''19990101'' ''12305'') = 13
   \<and> d_dt_fmt 13 = None
   \<and> extractDateValueAttributes to_float nan [(''1999010112305'', v)] = Inl KeyError
   \<and> match_key ''20201301'' = Some ([], ''20201301'', [], [])
   \<and> length (datetime_str ''20201301'' []) = 8
   \<and> extractDateValueAttributes to_float nan [(''20201301'', v)] = Inl ValueError"
  using key_five_digit_time date_five_digit_time key_month_13 date_month_13
  by (simp add: extractDateValueAttributes_def process_item_routes)

subsection \<open>A key with the letter T before the time\<close>

lemma key_with_T: "match_key ''20200101T1200'' = Some ([], ''20200101'', [], ''t1200'')"
  by code_simp

lemma key_with_T_ignorecase:
  "map_option (\<lambda>p. (group_or_empty p 1, group_or_empty p 2, group_or_empty p 4, group_or_empty p 5))
     (re_match True rgx_date ''20200101T1200'') = Some ([], ''20200101'', ''1200'', [])"
  by code_simp

lemma date_with_time:
  "datetime_str ''20200101'' ''1200'' = ''202001011200''
   \<and> parse_date ''20200101'' ''1200'' =
       Inr \<lparr>year = 2020, month = 1, day = 1, hour = 12, minute = 0, second = 0\<rparr>"
  by code_simp

lemma date_without_time: "datetime_str ''20200101'' [] = ''20200101''"
  by code_simp

lemma bucket_t1200: "spec_bucket (strip_separators ''t1200'') = ''los''"
  by code_simp

text \<open>
  Claim C4, at the key \<^verbatim>\<open>20200101T1200\<close>. The parser puts the key in lower case and
  matches it without \<^verbatim>\<open>re.IGNORECASE\<close>, so the \<^verbatim>\<open>T\<close> of the pattern does not match
  the \<^verbatim>\<open>t\<close> of the key: the time group stays empty, the digit string is
  \<^verbatim>\<open>20200101\<close> of length 8, the timestamp is midnight and \<^verbatim>\<open>t1200\<close> becomes the
  tag. With \<^verbatim>\<open>re.IGNORECASE\<close>, as in \<open>checkVectorLayerTimeseries\<close>, the same pattern
  reads the time \<^verbatim>\<open>1200\<close> from the same key, and the twelve digits parse to 12:00.
\<close>

theorem time_after_T_is_lost:
  "match_key ''20200101T1200'' = Some ([], ''20200101'', [], ''t1200'')
   \<and> length (datetime_str ''20200101'' []) = 8
   \<and> extractDateValueAttributes to_float nan [(''20200101T1200'', v)] =
       Inr [(''los'',
               [(\<lparr>year = 2020, month = 1, day = 1, hour = 0, minute = 0, second = 0\<rparr>,
                 coerce to_float nan v)]),
            (''h'', []), (''v'', []), (''los_sigma'', []), (''h_sigma'', []), (''v_sigma'', [])]
   \<and> map_option (\<lambda>p. (group_or_empty p 2, group_or_empty p 4))
        (re_match True rgx_date ''20200101T1200'') = Some (''20200101'', ''1200'')
   \<and> length (datetime_str ''20200101'' ''1200'') = 12
   \<and> parse_date ''20200101'' ''1200'' =
       Inr \<lparr>year = 2020, month = 1, day = 1, hour = 12, minute = 0, second = 0\<rparr>"
proof -
  have ic: "map_option (\<lambda>p. (group_or_empty p 2, group_or_empty p 4))
        (re_match True rgx_date ''20200101T1200'') = Some (''20200101'', ''1200'')"
    using key_with_T_ignorecase by (auto simp: map_option_case split: option.splits)
  have ex: "extractDateValueAttributes to_float nan [(''20200101T1200'', v)] =
       Inr [(''los'',
               [(\<lparr>year = 2020, month = 1, day = 1, hour = 0, minute = 0, second = 0\<rparr>,
                 coerce to_float nan v)]),
            (''h'', []), (''v'', []), (''los_sigma'', []), (''h_sigma'', []), (''v_sigma'', [])]"
    by (simp add: extractDateValueAttributes_def process_item_routes key_with_T date_20200101
        bucket_t1200 bucket_append_def add_pair_def d_date_value_init_def)
  show ?thesis
    using key_with_T ic ex date_with_time date_without_time by simp
qed

subsection \<open>Routing and coercion on a key whose timestamp fails\<close>

lemma key_feb_30: "match_key ''h20200230_err'' = Some (''h'', ''20200230'', [], ''_err'')"
  by code_simp

lemma date_feb_30:
  "datetime_str ''20200230'' [] = ''20200230'' \<and> parse_date ''20200230'' [] = Inl ValueError"
  by code_simp

lemma tag_h_err: "strip_separators ''h_err'' = ''herr''"
  by code_simp

text \<open>
  Claim C2, at the key \<^verbatim>\<open>h20200230_err\<close>. The key matches the date pattern, its
  separator-stripped tag is \<^verbatim>\<open>herr\<close>, and the routing of the claim names the bucket
  \<^verbatim>\<open>h_sigma\<close> for it. But the pattern lets 30 February through, \<^verbatim>\<open>strptime\<close>
  raises \<^verbatim>\<open>ValueError\<close> before the routing is reached, and the function returns no
  buckets at all: the pair of this matching key is routed nowhere. This is the failure of
  the timestamp of claim C3 again. On the keys whose timestamp parses the loop body routes
  as the claim says (lemma \<open>process_item_routes_by_tag\<close>).
\<close>

theorem matching_key_not_routed_when_timestamp_fails:
  "match_key ''h20200230_err'' = Some (''h'', ''20200230'', [], ''_err'')
   \<and> strip_separators (''h'' @ ''_err'') = ''herr''
   \<and> spec_bucket ''herr'' = ''h_sigma''
   \<and> length (datetime_str ''20200230'' []) = 8
   \<and> parse_date ''20200230'' [] = Inl ValueError
   \<and> extractDateValueAttributes to_float nan [(''h20200230_err'', v)] = Inl ValueError"
proof -
  have b: "spec_bucket ''herr'' = ''h_sigma''" by code_simp
  have e: "extractDateValueAttributes to_float nan [(''h20200230_err'', v)] = Inl ValueError"
    using key_feb_30 date_feb_30
    by (simp add: extractDateValueAttributes_def process_item_routes)
  show ?thesis using key_feb_30 date_feb_30 tag_h_err b e by simp
qed

lemma coerce_null_example:
  "(\<lambda>v. if v = ''5.3'' then Some ''5.3'' else None) ''NULL'' = None
   \<and> coerce (\<lambda>v. if v = ''5.3'' then Some ''5.3'' else None) ''nan'' ''NULL'' = ''nan''"
  by (simp add: coerce_def)

text \<open>
  Claim C7, at the mappings \<^verbatim>\<open>{"20201301": "NULL"}\<close> and
  \<^verbatim>\<open>{"20200101": "5.3", "20201301": "NULL", "20200102": "5.3"}\<close>, with a
  \<^verbatim>\<open>float\<close> that raises on \<^verbatim>\<open>NULL\<close>. The value is coerced to not-a-number
  without raising, but the key \<^verbatim>\<open>20201301\<close> matches the date pattern and
  \<^verbatim>\<open>strptime\<close>, which is outside the \<^verbatim>\<open>try\<close>, raises \<^verbatim>\<open>ValueError\<close> on
  the month 13: no pair with not-a-number is recorded, the function raises, and in the
  second mapping the pairs of the two other keys are lost with it. This is the failure of
  the timestamp of claim C3 again. On the keys whose timestamp parses the pair is recorded
  with not-a-number (lemma \<open>non_numeric_value_recorded_as_nan\<close>).
\<close>

theorem non_numeric_value_not_recorded_when_timestamp_fails:
  "(\<lambda>v. if v = ''5.3'' then Some ''5.3'' else None) ''NULL'' = None
   \<and> coerce (\<lambda>v. if v = ''5.3'' then Some ''5.3'' else None) ''nan'' ''NULL'' = ''nan''
   \<and> match_key ''20201301'' = Some ([], ''20201301'', [], [])
   \<and> parse_date ''20201301'' [] = Inl ValueError
   \<and> extractDateValueAttributes (\<lambda>v. if v = ''5.3'' then Some ''5.3'' else None) ''nan''
        [(''20201301'', ''NULL'')] = Inl ValueError
   \<and> extractDateValueAttributes (\<lambda>v. if v = ''5.3'' then Some ''5.3'' else None) ''nan''
        [(''20200101'', ''5.3''), (''20201301'', ''NULL''), (''20200102'', ''5.3'')]
        = Inl ValueError"
proof -
  let ?tf = "\<lambda>v. if v = ''5.3'' then Some ''5.3'' else None"
  have one: "extractDateValueAttributes ?tf ''nan'' [(''20201301'', ''NULL'')] = Inl ValueError"
    using key_month_13 date_month_13
    by (simp add: extractDateValueAttributes_def process_item_routes)
  have three: "extractDateValueAttributes ?tf ''nan''
        [(''20200101'', ''5.3''), (''20201301'', ''NULL''), (''20200102'', ''5.3'')]
        = Inl ValueError"
    using key_month_13 date_month_13
    by (simp add: extractDateValueAttributes_def process_item_routes key_plain date_20200101
        bucket_empty bucket_append_def add_pair_def d_date_value_init_def)
  show ?thesis using coerce_null_example key_month_13 date_month_13 one three by simp
qed

end
